theory Spec2Isabelle
  imports Complex_Main
begin

section \<open>Digital PID level control of a first-order tank: model of the simulation script\<close>

text \<open>
  The script computes with Python and NumPy double-precision numbers. The model reads
  every number as a \<^typ>\<open>real\<close>: the properties below are the algebraic ones, and
  rounding is outside of them. Arrays are lists, an exception is the left injection of
  a sum, and the script's formatted printing is represented by the values it prints.
\<close>

subsection \<open>Exceptions and transfer functions\<close>

datatype exn = IndexError | ValueError | ZeroDivisionError

text \<open>
  A transfer function as the script hands it to \<open>tf(num, den, T)\<close>: coefficient arrays,
  highest order first, and the sample period.
\<close>

record lti =
  numerator :: "real list"
  denominator :: "real list"
  sample_period :: real

subsection \<open>Block 7: the discrete PID controller\<close>

text \<open>
  \<^verbatim>\<open>
    b0 = Kp + Ki*T/2 + Kd/T
    b1 = -Kp + Ki*T/2 - 2*Kd/T
    b2 = Kd/T
    Cz = tf([b0, b1, b2], [1, -1, 0], T)
  \<close>
  Python's \<open>/\<close> raises ZeroDivisionError on a zero divisor; the only divisor that can be
  zero is \<open>T\<close>. Lines 79 to 81 have no other check of \<open>T\<close>.
\<close>

definition py_div :: "real \<Rightarrow> real \<Rightarrow> exn + real" where
  "py_div a b = (if b = 0 then Inl ZeroDivisionError else Inr (a / b))"

definition pid_coeffs :: "real \<Rightarrow> real \<Rightarrow> real \<Rightarrow> real \<Rightarrow> exn + real \<times> real \<times> real" where
  "pid_coeffs Kp Ki Kd T =
     (case py_div Kd T of Inl e \<Rightarrow> Inl e | Inr q0 \<Rightarrow>
        let b0 = Kp + Ki * T / 2 + q0 in
        (case py_div (2 * Kd) T of Inl e \<Rightarrow> Inl e | Inr q1 \<Rightarrow>
           let b1 = - Kp + Ki * T / 2 - q1 in
           (case py_div Kd T of Inl e \<Rightarrow> Inl e | Inr b2 \<Rightarrow>
              Inr (b0, b1, b2))))"

text \<open>
  Line 86 hands the three coefficients, the denominator \<open>[1, -1, 0]\<close> and \<open>T\<close> to the
  constructor \<open>tf\<close> of the \<open>control\<close> package. The package is not part of the
  repository, and the constructor does more than store its arguments (it rejects some
  sample periods and normalizes coefficient arrays), so it is a parameter of the model:
  a function from the two coefficient arrays and the sample period to an exception or
  a transfer function.
\<close>

type_synonym tf_constructor = "real list \<Rightarrow> real list \<Rightarrow> real \<Rightarrow> exn + lti"

definition Cz :: "tf_constructor \<Rightarrow> real \<Rightarrow> real \<Rightarrow> real \<Rightarrow> real \<Rightarrow> exn + lti" where
  "Cz tf Kp Ki Kd T =
     (case pid_coeffs Kp Ki Kd T of
        Inl e \<Rightarrow> Inl e
      | Inr (b0, b1, b2) \<Rightarrow> tf [b0, b1, b2] [1, - 1, 0] T)"

subsection \<open>Block 12: performance metrics\<close>

text \<open>
  \<open>range(start, stop, -1)\<close> for \<open>0 \<le> stop\<close>: the indices \<open>start, start - 1, \<dots>, stop + 1\<close>.
\<close>

definition py_range_down :: "nat \<Rightarrow> nat \<Rightarrow> nat list" where
  "py_range_down start stop = rev [Suc stop ..< Suc start]"

definition in_band :: "real \<Rightarrow> bool" where
  "in_band v = (\<bar>v - 1\<bar> \<le> 2 / 100)"

text \<open>
  The body of the backward loop: the first visited index whose sample is in the band
  sets \<open>settling_time = t_degrau[i]\<close> and breaks. Reading \<open>t_degrau[i]\<close> beyond the
  array raises IndexError.
\<close>

fun scan_band :: "real list \<Rightarrow> real list \<Rightarrow> nat list \<Rightarrow> exn + real option" where
  "scan_band t y [] = Inr None"
| "scan_band t y (i # is) =
     (if in_band (y ! i)
      then (if i < length t then Inr (Some (t ! i)) else Inl IndexError)
      else scan_band t y is)"

definition settling_time :: "real list \<Rightarrow> real list \<Rightarrow> exn + real option" where
  "settling_time t y =
     (if length y > 10
      then scan_band t y
             (py_range_down (length y - 1) (nat (max 0 (int (length y) - 100))))
      else Inr None)"

text \<open>\<open>np.max\<close> raises ValueError on an array without elements.\<close>

fun np_max :: "real list \<Rightarrow> exn + real" where
  "np_max [] = Inl ValueError"
| "np_max (v # vs) = Inr (fold max vs v)"

definition overshoot :: "real list \<Rightarrow> exn + real" where
  "overshoot y =
     (if length y > 0
      then (case np_max y of Inl e \<Rightarrow> Inl e | Inr m \<Rightarrow> Inr (max 0 ((m - 1) * 100)))
      else Inr 0)"

text \<open>\<open>a[-1]\<close>: the last element, IndexError on an array without elements.\<close>

definition index_last :: "real list \<Rightarrow> exn + real" where
  "index_last a = (if a = [] then Inl IndexError else Inr (last a))"

definition erro_estacionario :: "real list \<Rightarrow> exn + real" where
  "erro_estacionario y =
     (case index_last y of Inl e \<Rightarrow> Inl e | Inr v \<Rightarrow> Inr \<bar>1 - v\<bar>)"

definition esforco_maximo :: "real list \<Rightarrow> exn + real" where
  "esforco_maximo u = np_max (map abs u)"

text \<open>
  What the step block prints: the settling-time line appears only when
  \<open>settling_time\<close> is truthy, that is neither \<open>None\<close> nor zero.
\<close>

record step_report =
  valor_final :: real
  erro_estac :: real
  esforco_max :: real
  tempo_acomodacao :: "real option"
  sobressinal :: real

definition truthy :: "real option \<Rightarrow> real option" where
  "truthy s = (case s of None \<Rightarrow> None | Some v \<Rightarrow> (if v = 0 then None else Some v))"

text \<open>The body of the first \<open>try\<close>, in the order the script evaluates it.\<close>

definition step_metrics :: "real list \<Rightarrow> real list \<Rightarrow> real list \<Rightarrow> exn + step_report" where
  "step_metrics t y u =
     (case settling_time t y of Inl e \<Rightarrow> Inl e | Inr st \<Rightarrow>
      (case overshoot y of Inl e \<Rightarrow> Inl e | Inr os \<Rightarrow>
       (case index_last y of Inl e \<Rightarrow> Inl e | Inr vf \<Rightarrow>
        (case erro_estacionario y of Inl e \<Rightarrow> Inl e | Inr ee \<Rightarrow>
         (case esforco_maximo u of Inl e \<Rightarrow> Inl e | Inr em \<Rightarrow>
            Inr \<lparr>valor_final = vf, erro_estac = ee, esforco_max = em,
                 tempo_acomodacao = truthy st, sobressinal = os\<rparr>)))))"

text \<open>
  \<open>ref - y\<close> on NumPy arrays of one dimension: element by element for equal lengths, an
  array of length one is broadcast, any other pair of lengths raises ValueError.
\<close>

definition np_sub :: "real list \<Rightarrow> real list \<Rightarrow> exn + real list" where
  "np_sub a b =
     (if length a = length b then Inr (map2 (-) a b)
      else if length a = 1 then Inr (map (\<lambda>v. hd a - v) b)
      else if length b = 1 then Inr (map (\<lambda>v. v - hd b) a)
      else Inl ValueError)"

definition ones_like :: "real list \<Rightarrow> real list" where
  "ones_like t = map (\<lambda>_. 1) t"

definition erro_final_rampa :: "real list \<Rightarrow> exn + real" where
  "erro_final_rampa erro_rampa = index_last erro_rampa"

record ramp_report =
  erro_final :: real
  esforco_max_rampa :: real

text \<open>The body of the second \<open>try\<close>.\<close>

definition ramp_metrics :: "real list \<Rightarrow> real list \<Rightarrow> exn + ramp_report" where
  "ramp_metrics erro_rampa u =
     (case erro_final_rampa erro_rampa of Inl e \<Rightarrow> Inl e | Inr ef \<Rightarrow>
      (case esforco_maximo u of Inl e \<Rightarrow> Inl e | Inr em \<Rightarrow>
         Inr \<lparr>erro_final = ef, esforco_max_rampa = em\<rparr>))"

text \<open>
  \<open>try: \<dots> except Exception as e: print(\<dots>)\<close>: every exception of the body is caught
  and printed, and the script goes on; none reaches the caller.
\<close>

datatype 'a printed = Report 'a | Error_message exn

definition try_except :: "exn + 'a \<Rightarrow> 'a printed" where
  "try_except r = (case r of Inl e \<Rightarrow> Error_message e | Inr v \<Rightarrow> Report v)"

definition step_block :: "real list \<Rightarrow> real list \<Rightarrow> real list \<Rightarrow> step_report printed" where
  "step_block t y u = try_except (step_metrics t y u)"

definition ramp_block :: "real list \<Rightarrow> real list \<Rightarrow> ramp_report printed" where
  "ramp_block erro_rampa u = try_except (ramp_metrics erro_rampa u)"

section \<open>The library operations the script calls\<close>

text \<open>
  The script delegates discretization to \<open>scipy.signal.cont2discrete\<close>, composition to
  \<open>feedback(Cz * Gz, 1)\<close> and simulation to \<open>forced_response\<close> of the \<open>control\<close> package.
  The packages are not part of the repository; each operation is modelled from the
  design document's description of it.
\<close>

datatype spec_error = InvalidSampleError | IncompatibleSampleRateError | TimeGridMismatchError

subsection \<open>Polynomials as coefficient lists, highest order first\<close>

text \<open>
  Modelled from the spec: the value of a coefficient sequence (highest order first) at a
  point, by Horner's rule, and the coefficient of the power \<open>i\<close>; the polynomial
  routines of NumPy that the \<open>control\<close> package uses are not in the repository.
\<close>

definition polyval :: "real list \<Rightarrow> real \<Rightarrow> real" where
  "polyval p z = foldl (\<lambda>acc c. acc * z + c) 0 p"

definition coeff :: "real list \<Rightarrow> nat \<Rightarrow> real" where
  "coeff p i = (if i < length p then p ! (length p - 1 - i) else 0)"

text \<open>
  Modelled from the spec: polynomial addition after aligning degrees, the shorter
  sequence padded with leading zeros (the package's polynomial addition is missing).
\<close>

definition polyadd :: "real list \<Rightarrow> real list \<Rightarrow> real list" where
  "polyadd p q =
     map2 (+) (replicate (length q - length p) 0 @ p)
              (replicate (length p - length q) 0 @ q)"

text \<open>
  Modelled from the spec: polynomial multiplication of coefficient sequences (the
  package's polynomial multiplication is missing): the leading coefficient times the
  other factor, shifted by the remaining degree, plus the product of the rest.
\<close>

fun polymul :: "real list \<Rightarrow> real list \<Rightarrow> real list" where
  "polymul [] q = []"
| "polymul (a # p) q =
     polyadd (map ((*) a) q @ replicate (length p) 0) (polymul p q)"

subsection \<open>Closed-loop composer\<close>

text \<open>
  Modelled from the spec: the open-loop product \<open>L = controller * plant\<close>, numerators
  and denominators multiplied (\<open>Cz * Gz\<close> of the \<open>control\<close> package is missing).
\<close>

definition series :: "lti \<Rightarrow> lti \<Rightarrow> lti" where
  "series c g =
     \<lparr>numerator = polymul (numerator c) (numerator g),
      denominator = polymul (denominator c) (denominator g),
      sample_period = sample_period c\<rparr>"

text \<open>
  Modelled from the spec: \<open>close_loop(controller, plant)\<close>, unity negative feedback
  (\<open>feedback(L, 1)\<close> of the \<open>control\<close> package is missing). It requires equal sample
  periods and fails with IncompatibleSampleRateError otherwise; the closed-loop
  numerator is \<open>L.numerator\<close>, the denominator \<open>L.denominator + L.numerator\<close>.
\<close>

definition close_loop :: "lti \<Rightarrow> lti \<Rightarrow> spec_error + lti" where
  "close_loop c g =
     (if sample_period c \<noteq> sample_period g then Inl IncompatibleSampleRateError
      else let l = series c g in
        Inr \<lparr>numerator = numerator l,
             denominator = polyadd (denominator l) (numerator l),
             sample_period = sample_period l\<rparr>)"

subsection \<open>ZOH discretizer, first-order plant\<close>

text \<open>
  Modelled from the spec: the state-space route of the ZOH discretizer
  (\<open>scipy.signal.cont2discrete\<close> is missing) for the plant \<open>K/(\<tau>s + 1)\<close>, whose
  realization has one state: \<open>x' = a x + b u\<close>, \<open>y = c x\<close>.
\<close>

record ss1 =
  ss_a :: real
  ss_b :: real
  ss_c :: real

text \<open>
  Modelled from the spec: the continuous state-space realization of \<open>K/(\<tau>s + 1)\<close>,
  normalized to a monic denominator: \<open>a = -1/\<tau>\<close>, \<open>b = 1\<close>, \<open>c = K/\<tau>\<close>.
\<close>

definition tf2ss :: "real \<Rightarrow> real \<Rightarrow> ss1" where
  "tf2ss K tau = \<lparr>ss_a = - (1 / tau), ss_b = 1, ss_c = K / tau\<rparr>"

text \<open>
  Modelled from the spec: the exponential of the augmented matrix
  \<open>[[a T, b T], [0, 0]]\<close>, whose first row holds the discrete state and input
  coefficients \<open>exp (a T)\<close> and \<open>b (exp (a T) - 1) / a\<close> (\<open>b T\<close> when \<open>a = 0\<close>).
\<close>

definition zoh :: "ss1 \<Rightarrow> real \<Rightarrow> ss1" where
  "zoh s T =
     \<lparr>ss_a = exp (ss_a s * T),
      ss_b = (if ss_a s = 0 then ss_b s * T else (exp (ss_a s * T) - 1) / ss_a s * ss_b s),
      ss_c = ss_c s\<rparr>"

text \<open>
  Modelled from the spec: the reduction of the one-state discrete system to a transfer
  function, \<open>c b / (z - a)\<close>.
\<close>

definition ss2tf :: "ss1 \<Rightarrow> real \<Rightarrow> lti" where
  "ss2tf s T =
     \<lparr>numerator = [ss_c s * ss_b s], denominator = [1, - ss_a s], sample_period = T\<rparr>"

text \<open>
  Modelled from the spec: \<open>discretize(continuous_model, T)\<close> for the continuous model
  \<open>K/(\<tau>s + 1)\<close>, given by \<open>K\<close> and \<open>\<tau>\<close>; it fails with InvalidSampleError when
  \<open>T \<le> 0\<close>.
\<close>

definition discretize :: "real \<Rightarrow> real \<Rightarrow> real \<Rightarrow> spec_error + lti" where
  "discretize K tau T =
     (if T \<le> 0 then Inl InvalidSampleError else Inr (ss2tf (zoh (tf2ss K tau) T) T))"

text \<open>Modelled from the spec: the discrete DC gain \<open>sum(numerator)/sum(denominator)\<close>.\<close>

definition dc_gain :: "lti \<Rightarrow> real" where
  "dc_gain g = sum_list (numerator g) / sum_list (denominator g)"

subsection \<open>Time-domain simulator\<close>

text \<open>
  Modelled from the spec: the terms \<open>sum_k c_k * h[n-k]\<close> of the difference equation
  over a history held most recent first; a history shorter than the coefficient
  sequence ends the sum, which is the zero initial state.
\<close>

definition dot :: "real list \<Rightarrow> real list \<Rightarrow> real" where
  "dot cs hs = sum_list (map2 (*) cs hs)"

text \<open>
  Modelled from the spec: the recursion
  \<open>y[n] = (1/a0) * (sum_k b_k * u[n-k] - sum_{k>=1} a_k * y[n-k])\<close>, evaluated in time
  order (\<open>forced_response\<close> of the \<open>control\<close> package is missing). \<open>uh\<close> and \<open>yh\<close> are
  the inputs and outputs seen so far, most recent first.
\<close>

fun sim_loop ::
  "real list \<Rightarrow> real \<Rightarrow> real list \<Rightarrow> real list \<Rightarrow> real list \<Rightarrow> real list \<Rightarrow> real list" where
  "sim_loop b a0 as uh yh [] = []"
| "sim_loop b a0 as uh yh (x # xs) =
     (let uh' = x # uh;
          y = (1 / a0) * (dot b uh' - dot as yh)
      in y # sim_loop b a0 as uh' (y # yh) xs)"

text \<open>
  Modelled from the spec: the precondition of the simulator, a strictly increasing
  time vector with uniform spacing equal to the model's sample period.
\<close>

fun uniform_grid :: "real \<Rightarrow> real list \<Rightarrow> bool" where
  "uniform_grid dt (x # y # r) = (x < y \<and> y - x = dt \<and> uniform_grid dt (y # r))"
| "uniform_grid dt r = True"

text \<open>
  Modelled from the spec: \<open>simulate(model, time, input)\<close>; it fails with
  TimeGridMismatchError when the time grid does not match the model's sample period or
  the lengths differ. The denominator is non-empty by the invariant of the LTI model;
  its head is \<open>a0\<close>.
\<close>

definition simulate :: "lti \<Rightarrow> real list \<Rightarrow> real list \<Rightarrow> spec_error + real list" where
  "simulate model time input =
     (if \<not> uniform_grid (sample_period model) time \<or> length time \<noteq> length input
      then Inl TimeGridMismatchError
      else Inr (sim_loop (numerator model) (hd (denominator model)) (tl (denominator model))
                  [] [] input))"

text \<open>
  Modelled from the spec: a history term \<open>x[n-k]\<close> of the difference equation, taken as
  zero at a negative index.
\<close>

definition past :: "real list \<Rightarrow> nat \<Rightarrow> nat \<Rightarrow> real" where
  "past x n k = (if k \<le> n then x ! (n - k) else 0)"

section \<open>Properties\<close>

subsection \<open>PID coefficients\<close>

lemma pid_coeffs_nonzero:
  "T \<noteq> 0 \<Longrightarrow> pid_coeffs Kp Ki Kd T =
     Inr (Kp + Ki * T / 2 + Kd / T, - Kp + Ki * T / 2 - 2 * Kd / T, Kd / T)"
  by (simp add: pid_coeffs_def py_div_def)


text \<open>
  Claim C1. For a positive sample period the coefficients are exactly
  \<open>b0 = Kp + Ki*T/2 + Kd/T\<close>, \<open>b1 = -Kp + Ki*T/2 - 2*Kd/T\<close>, \<open>b2 = Kd/T\<close>, and the
  controller is constructed from the numerator \<open>[b0, b1, b2]\<close> over the denominator
  \<open>[1, -1, 0]\<close>; at \<open>T = 1\<close>, \<open>Kp = 1\<close>, \<open>Ki = 0\<close>, \<open>Kd = 0\<close> the coefficients are
  \<open>b0 = 1\<close>, \<open>b1 = -1\<close>, \<open>b2 = 0\<close>.
\<close>

theorem pid_synthesis_formulas:
  assumes "0 < T"
  shows "pid_coeffs Kp Ki Kd T =
           Inr (Kp + Ki * T / 2 + Kd / T, - Kp + Ki * T / 2 - 2 * Kd / T, Kd / T)
       \<and> Cz tf Kp Ki Kd T =
           tf [Kp + Ki * T / 2 + Kd / T, - Kp + Ki * T / 2 - 2 * Kd / T, Kd / T]
              [1, - 1, 0] T
       \<and> pid_coeffs 1 0 0 1 = Inr (1, - 1, 0)
       \<and> Cz tf 1 0 0 1 = tf [1, - 1, 0] [1, - 1, 0] 1"
  using assms by (simp add: Cz_def pid_coeffs_nonzero)

theorem pid_synthesis_formulas_witness:
  "(0::real) < 126 \<and>
   pid_coeffs (1/100) (5/1000000) (2/1000) 126 =
     Inr (1/100 + 5/1000000 * 126 / 2 + (2/1000) / 126,
          - (1/100) + 5/1000000 * 126 / 2 - 2 * (2/1000) / 126,
          (2/1000) / 126)"
  using pid_synthesis_formulas [of 126 "1/100" "5/1000000" "2/1000"] by simp

subsection \<open>Metrics\<close>

lemma np_max_Max: "ys \<noteq> [] \<Longrightarrow> np_max ys = Inr (Max (set ys))"
  by (cases ys) (simp_all add: Max.set_eq_fold [symmetric])

lemma last_map2:
  "length a = length b \<Longrightarrow> b \<noteq> [] \<Longrightarrow> last (map2 f a b) = f (last a) (last b)"
  by (induction a b rule: list_induct2) auto

lemma np_sub_same_length: "length a = length b \<Longrightarrow> np_sub a b = Inr (map2 (-) a b)"
  by (simp add: np_sub_def)

lemma step_metrics_fields:
  assumes "step_metrics t y u = Inr r"
  shows "settling_time t y = Inr st \<Longrightarrow> tempo_acomodacao r = truthy st"
    and "overshoot y = Inr os \<Longrightarrow> sobressinal r = os"
    and "erro_estacionario y = Inr ee \<Longrightarrow> erro_estac r = ee"
    and "index_last y = Inr vf \<Longrightarrow> valor_final r = vf"
  using assms by (auto simp: step_metrics_def split: sum.splits)

lemma ramp_metrics_fields:
  assumes "ramp_metrics e u = Inr r"
  shows "erro_final_rampa e = Inr ef \<Longrightarrow> erro_final r = ef"
  using assms by (auto simp: ramp_metrics_def split: sum.splits)

text \<open>
  Claim C5, evaluated on the script. The trace has twelve samples at times
  \<open>0, 1, \<dots>, 11\<close>; the output is \<open>0\<close> at the first sample and \<open>1\<close> afterwards. The
  backward scan visits the indices \<open>11, \<dots>, 1\<close>, every sample from index \<open>1\<close> on is
  inside the 2% band, so the earliest time from which the output stays in the band is
  \<open>1\<close>; the script stops at the first index it visits and reports \<open>11\<close>.
\<close>

theorem settling_time_reports_last_in_band_sample:
  "settling_time [0, 1, 2, 3, 4, 5, 6, 7, 8, 9, 10, 11] [0, 1, 1, 1, 1, 1, 1, 1, 1, 1, 1, 1]
     = Inr (Some 11)
   \<and> py_range_down (12 - 1) (nat (max 0 (12 - 100))) = [11, 10, 9, 8, 7, 6, 5, 4, 3, 2, 1]
   \<and> list_all in_band (drop 1 [0, 1, 1, 1, 1, 1, 1, 1, 1, 1, 1, 1])
   \<and> \<not> in_band ([0, 1, 1, 1, 1, 1, 1, 1, 1, 1, 1, 1] ! 0)
   \<and> [0, 1, 2, 3, 4, 5, 6, 7, 8, 9, 10, 11 :: real] ! 1 = 1"
  by (simp add: settling_time_def py_range_down_def in_band_def upt_rec)

text \<open>
  Claim C6, as stated, fails for the step: the script prints \<open>abs(1 - y_degrau[-1])\<close>.
  With the one-sample output \<open>1.5\<close> the last value of \<open>reference - output\<close> is \<open>-0.5\<close>
  and the reported steady-state error is \<open>0.5\<close>.
\<close>

theorem signed_step_error_counterexample:
  "np_sub (ones_like [0]) [3/2] = Inr [- (1/2)]
   \<and> erro_estacionario [3/2] = Inr (1/2)
   \<and> erro_estacionario [3/2] \<noteq> Inr (last [- (1/2)])"
  by (simp add: np_sub_def ones_like_def erro_estacionario_def index_last_def)

text \<open>
  Claim C6, amended. For every non-empty trace, the steady-state error reported for the
  step is the absolute value of the last value of \<open>reference - output\<close> (the reference
  being the unit step), and the velocity error reported for the ramp is the last value
  of \<open>reference - output\<close> itself, with its sign.
\<close>

theorem final_error_step_abs_ramp_signed:
  assumes "y \<noteq> []" and "length t = length y" and "length ref_rampa = length y"
  shows "np_sub (ones_like t) y = Inr (map2 (-) (ones_like t) y)
       \<and> erro_estacionario y = Inr \<bar>last (map2 (-) (ones_like t) y)\<bar>
       \<and> (step_metrics t y u = Inr r \<longrightarrow>
            erro_estac r = \<bar>last (map2 (-) (ones_like t) y)\<bar>)
       \<and> np_sub ref_rampa y = Inr (map2 (-) ref_rampa y)
       \<and> erro_final_rampa (map2 (-) ref_rampa y) = Inr (last (map2 (-) ref_rampa y))
       \<and> (ramp_metrics (map2 (-) ref_rampa y) u' = Inr r' \<longrightarrow>
            erro_final r' = last (map2 (-) ref_rampa y))"
proof -
  from assms have t: "t \<noteq> []" and len1: "length (ones_like t) = length y"
    by (auto simp: ones_like_def)
  have one: "last (ones_like t) = 1"
    using t by (simp add: ones_like_def last_map)
  have l1: "last (map2 (-) (ones_like t) y) = 1 - last y"
    using last_map2 [OF len1 assms(1), of "(-)"] one by simp
  have ee: "erro_estacionario y = Inr \<bar>last (map2 (-) (ones_like t) y)\<bar>"
    using assms(1) by (simp add: erro_estacionario_def index_last_def l1)
  have ne: "map2 (-) ref_rampa y \<noteq> []"
    using assms(1,3) by (cases ref_rampa; cases y) auto
  have ef: "erro_final_rampa (map2 (-) ref_rampa y) = Inr (last (map2 (-) ref_rampa y))"
    using ne by (simp add: erro_final_rampa_def index_last_def)
  show ?thesis
    using ee ef np_sub_same_length [OF len1] np_sub_same_length [OF assms(3)]
      step_metrics_fields(3) [of t y u r] ramp_metrics_fields [of _ u' r']
    by simp
qed

theorem final_error_step_abs_ramp_signed_witness:
  "[1/2, 3/2] \<noteq> ([]::real list) \<and> length [0, 126::real] = length [1/2, 3/2::real]
   \<and> length [0, 1::real] = length [1/2, 3/2::real]
   \<and> step_metrics [0, 126] [1/2, 3/2] [1/2, - 1] =
       Inr \<lparr>valor_final = 3/2, erro_estac = 1/2, esforco_max = 1,
            tempo_acomodacao = None, sobressinal = 50\<rparr>
   \<and> ramp_metrics (map2 (-) [0, 1] [1/2, 3/2]) [1/2, - 1] =
       Inr \<lparr>erro_final = - (1/2), esforco_max_rampa = 1\<rparr>
   \<and> erro_estacionario [1/2, 3/2] = Inr (1/2)
   \<and> erro_final_rampa (map2 (-) [0, 1] [1/2, 3/2]) = Inr (- (1/2))"
proof -
  have a: "[1/2, 3/2] \<noteq> ([]::real list)" by simp
  have b: "length [0, 126::real] = length [1/2, 3/2::real]" by simp
  have c: "length [0, 1::real] = length [1/2, 3/2::real]" by simp
  have d: "step_metrics [0, 126] [1/2, 3/2] [1/2, - 1] =
       Inr \<lparr>valor_final = 3/2, erro_estac = 1/2, esforco_max = 1,
            tempo_acomodacao = None, sobressinal = 50\<rparr>"
    by (simp add: step_metrics_def settling_time_def overshoot_def index_last_def
        erro_estacionario_def esforco_maximo_def truthy_def)
  have e: "ramp_metrics (map2 (-) [0, 1] [1/2, 3/2]) [1/2, - 1] =
       Inr \<lparr>erro_final = - (1/2), esforco_max_rampa = 1\<rparr>"
    by (simp add: ramp_metrics_def erro_final_rampa_def index_last_def esforco_maximo_def)
  from final_error_step_abs_ramp_signed [OF a b c, of "[1/2, - 1]" _ "[1/2, - 1]"]
  have "erro_estacionario [1/2, 3/2] = Inr \<bar>last (map2 (-) (ones_like [0, 126]) [1/2, 3/2])\<bar>"
    and "erro_final_rampa (map2 (-) [0, 1] [1/2, 3/2]) = Inr (last (map2 (-) [0, 1] [1/2, 3/2]))"
    by blast+
  then have "erro_estacionario [1/2, 3/2] = Inr (1/2)"
    and "erro_final_rampa (map2 (-) [0, 1] [1/2, 3/2]) = Inr (- (1/2))"
    by (simp_all add: ones_like_def)
  with a b c d e show ?thesis by blast
qed

text \<open>
  Claim C7. For every non-empty step-response trace the overshoot is
  \<open>max(0, (max(output) - final reference value) * 100)\<close>, the final value of the unit
  step reference being 1; this is what the report holds, and it is zero when no output
  sample exceeds the reference's final value.
\<close>

theorem overshoot_formula:
  assumes "y \<noteq> []" and "length t = length y"
  shows "overshoot y = Inr (max 0 ((Max (set y) - last (ones_like t)) * 100))
       \<and> (step_metrics t y u = Inr r \<longrightarrow>
            sobressinal r = max 0 ((Max (set y) - last (ones_like t)) * 100))
       \<and> ((\<forall>v \<in> set y. v \<le> last (ones_like t)) \<longrightarrow> overshoot y = Inr 0)"
proof -
  from assms have t: "t \<noteq> []" by auto
  then have one: "last (ones_like t) = 1"
    by (simp add: ones_like_def last_map)
  have os: "overshoot y = Inr (max 0 ((Max (set y) - 1) * 100))"
    using assms(1) by (simp add: overshoot_def np_max_Max)
  have zero: "overshoot y = Inr 0" if "\<forall>v \<in> set y. v \<le> 1"
  proof -
    from that assms(1) have "Max (set y) \<le> 1" by simp
    then have "(Max (set y) - 1) * 100 \<le> 0" by simp
    with os show ?thesis by (simp add: max_def)
  qed
  show ?thesis
    using os zero one step_metrics_fields(2) [of t y u r] by simp
qed

theorem overshoot_formula_witness:
  "[1/2, 1] \<noteq> ([]::real list) \<and> length [0, 126::real] = length [1/2, 1::real]
   \<and> step_metrics [0, 126] [1/2, 1] [1/2, 0] =
       Inr \<lparr>valor_final = 1, erro_estac = 0, esforco_max = 1/2,
            tempo_acomodacao = None, sobressinal = 0\<rparr>
   \<and> (1/2::real) \<le> last (ones_like [0, 126]) \<and> (1::real) \<le> last (ones_like [0, 126])
   \<and> overshoot [1/2, 1] = Inr 0"
proof -
  have a: "[1/2, 1] \<noteq> ([]::real list)" by simp
  have b: "length [0, 126::real] = length [1/2, 1::real]" by simp
  have c: "step_metrics [0, 126] [1/2, 1] [1/2, 0] =
       Inr \<lparr>valor_final = 1, erro_estac = 0, esforco_max = 1/2,
            tempo_acomodacao = None, sobressinal = 0\<rparr>"
    by (simp add: step_metrics_def settling_time_def overshoot_def index_last_def
        erro_estacionario_def esforco_maximo_def truthy_def)
  have d: "\<forall>v \<in> set [1/2, 1::real]. v \<le> last (ones_like [0, 126])"
    by (simp add: ones_like_def)
  have e: "(1/2::real) \<le> last (ones_like [0, 126]) \<and> (1::real) \<le> last (ones_like [0, 126])"
    by (simp add: ones_like_def)
  from overshoot_formula [OF a b, of "[1/2, 0]"] d have "overshoot [1/2, 1] = Inr 0"
    by blast
  with a b c e show ?thesis by blast
qed

text \<open>
  Claim C8, as stated, fails: on the empty trace the body of the step block stops with
  IndexError at the final-value lookup, and the overshoot has already been set to the
  default 0.
\<close>

theorem empty_trace_counterexample:
  "step_metrics [] [] [] = Inl IndexError \<and> overshoot [] = Inr 0"
  by (simp add: settling_time_def overshoot_def index_last_def step_metrics_def)

text \<open>
  Claim C8, amended. On an empty trace the step block leaves the settling time absent
  and sets the overshoot to 0, then the final-value lookup (and with it the
  steady-state error) raises IndexError, which the block catches and prints as a
  message; the ramp block raises IndexError at the last-error lookup and prints a
  message as well. The maximum of an empty control signal raises ValueError. No error
  reaches the caller.
\<close>

theorem empty_trace_handled_index_error:
  "settling_time t [] = Inr None
   \<and> overshoot [] = Inr 0
   \<and> index_last [] = Inl IndexError
   \<and> erro_estacionario [] = Inl IndexError
   \<and> esforco_maximo [] = Inl ValueError
   \<and> step_metrics t [] u = Inl IndexError
   \<and> step_block t [] u = Error_message IndexError
   \<and> erro_final_rampa [] = Inl IndexError
   \<and> ramp_metrics [] u = Inl IndexError
   \<and> ramp_block [] u = Error_message IndexError"
  by (simp add: settling_time_def overshoot_def index_last_def erro_estacionario_def
      esforco_maximo_def step_metrics_def step_block_def try_except_def
      erro_final_rampa_def ramp_metrics_def ramp_block_def)

text \<open>
  Claim C10. For a step-response trace of at most ten samples the backward scan is
  skipped: the settling time is absent, and the report has no settling-time line,
  whatever the samples are.
\<close>

theorem short_trace_no_settling_time:
  assumes "length y \<le> 10"
  shows "settling_time t y = Inr None
       \<and> (step_metrics t y u = Inr r \<longrightarrow> tempo_acomodacao r = None)"
proof -
  have st: "settling_time t y = Inr None"
    using assms by (simp add: settling_time_def)
  show ?thesis
    using st step_metrics_fields(1) [of t y u r None] by (simp add: truthy_def)
qed

theorem short_trace_no_settling_time_witness:
  "length [1, 1, 1, 1, 1, 1, 1, 1, 1, 1 :: real] \<le> 10
   \<and> list_all in_band [1, 1, 1, 1, 1, 1, 1, 1, 1, 1]
   \<and> step_metrics [0, 1, 2, 3, 4, 5, 6, 7, 8, 9] [1, 1, 1, 1, 1, 1, 1, 1, 1, 1] [0] =
       Inr \<lparr>valor_final = 1, erro_estac = 0, esforco_max = 0,
            tempo_acomodacao = None, sobressinal = 0\<rparr>
   \<and> settling_time [0, 1, 2, 3, 4, 5, 6, 7, 8, 9] [1, 1, 1, 1, 1, 1, 1, 1, 1, 1] = Inr None"
proof -
  have a: "length [1, 1, 1, 1, 1, 1, 1, 1, 1, 1 :: real] \<le> 10" by simp
  have b: "list_all in_band [1, 1, 1, 1, 1, 1, 1, 1, 1, 1]" by (simp add: in_band_def)
  have c: "step_metrics [0, 1, 2, 3, 4, 5, 6, 7, 8, 9] [1, 1, 1, 1, 1, 1, 1, 1, 1, 1] [0] =
       Inr \<lparr>valor_final = 1, erro_estac = 0, esforco_max = 0,
            tempo_acomodacao = None, sobressinal = 0\<rparr>"
    by (simp add: step_metrics_def settling_time_def overshoot_def index_last_def
        erro_estacionario_def esforco_maximo_def truthy_def)
  from short_trace_no_settling_time [OF a] a b c show ?thesis by blast
qed

subsection \<open>Checks of the sample period\<close>




subsection \<open>Polynomial algebra\<close>

lemma foldl_horner:
  "foldl (\<lambda>acc c. acc * z + c) (a::real) p = a * z ^ length p + foldl (\<lambda>acc c. acc * z + c) 0 p"
proof (induction p arbitrary: a)
  case Nil
  then show ?case by simp
next
  case (Cons c p)
  have "foldl (\<lambda>acc c. acc * z + c) a (c # p) = foldl (\<lambda>acc c. acc * z + c) (a * z + c) p"
    by simp
  also have "\<dots> = (a * z + c) * z ^ length p + foldl (\<lambda>acc c. acc * z + c) 0 p"
    by (rule Cons.IH)
  also have "foldl (\<lambda>acc c. acc * z + c) 0 (c # p) = c * z ^ length p + foldl (\<lambda>acc c. acc * z + c) 0 p"
    using Cons.IH [of c] by simp
  ultimately show ?case by (simp add: algebra_simps)
qed

lemma polyval_Nil [simp]: "polyval [] z = 0"
  by (simp add: polyval_def)

lemma polyval_Cons: "polyval (c # p) z = c * z ^ length p + polyval p z"
  using foldl_horner [of z c p] by (simp add: polyval_def)

lemma polyval_append: "polyval (p @ q) z = polyval p z * z ^ length q + polyval q z"
  by (induction p) (simp_all add: polyval_Cons algebra_simps power_add)

lemma polyval_zeros [simp]: "polyval (replicate n 0) z = 0"
  by (induction n) (simp_all add: polyval_Cons)

lemma polyval_map2_add:
  "length p = length q \<Longrightarrow> polyval (map2 (+) p q) z = polyval p z + polyval q z"
  by (induction p q rule: list_induct2) (simp_all add: polyval_Cons algebra_simps)

lemma polyval_polyadd: "polyval (polyadd p q) z = polyval p z + polyval q z"
proof -
  have "length (replicate (length q - length p) (0::real) @ p)
      = length (replicate (length p - length q) (0::real) @ q)"
    by simp
  then show ?thesis
    unfolding polyadd_def by (simp only: polyval_map2_add) (simp add: polyval_append)
qed

lemma polyval_scale: "polyval (map ((*) a) q) z = a * polyval q z"
  by (induction q) (simp_all add: polyval_Cons algebra_simps)

lemma length_polyadd [simp]: "length (polyadd p q) = max (length p) (length q)"
  by (simp add: polyadd_def)

lemma polyval_polymul: "polyval (polymul p q) z = polyval p z * polyval q z"
  by (induction p)
     (simp_all add: polyval_Cons polyval_polyadd polyval_append polyval_scale algebra_simps)

lemma coeff_pad:
  "coeff (replicate k 0 @ r) i = coeff r i"
proof (cases "i < length r")
  case True
  then have idx: "k + length r - 1 - i = k + (length r - 1 - i)" by arith
  have "(replicate k (0::real) @ r) ! (k + (length r - 1 - i)) = r ! (length r - 1 - i)"
    by (simp add: nth_append)
  with True idx show ?thesis by (simp add: coeff_def)
next
  case False
  show ?thesis
  proof (cases "i < k + length r")
    case True
    with False have idx: "k + length r - 1 - i < k" by arith
    then have "(replicate k (0::real) @ r) ! (k + length r - 1 - i) = 0"
      by (simp only: nth_append length_replicate if_True nth_replicate)
    with True False show ?thesis by (simp add: coeff_def)
  next
    case False
    then show ?thesis by (simp add: coeff_def)
  qed
qed

lemma coeff_map2_add:
  assumes "length p = length q"
  shows "coeff (map2 (+) p q) i = coeff p i + coeff q i"
  using assms by (simp add: coeff_def)

lemma coeff_polyadd: "coeff (polyadd p q) i = coeff p i + coeff q i"
proof -
  have "length (replicate (length q - length p) (0::real) @ p)
      = length (replicate (length p - length q) (0::real) @ q)"
    by simp
  then show ?thesis
    unfolding polyadd_def by (simp only: coeff_map2_add coeff_pad)
qed

subsection \<open>ZOH discretization of the first-order plant\<close>

text \<open>
  Claim C2. For every \<open>K\<close>, \<open>\<tau> > 0\<close> and \<open>T > 0\<close> the discretized plant has
  numerator \<open>K (1 - exp (-T/\<tau>))\<close> and denominator \<open>[1, - exp (-T/\<tau>)]\<close>; the denominator
  vanishes at \<open>exp (-T/\<tau>)\<close>, the discrete pole; and the discrete DC gain
  \<open>sum(numerator)/sum(denominator)\<close> is \<open>K\<close>, the value of \<open>K/(\<tau>s + 1)\<close> at \<open>s = 0\<close>.
\<close>

theorem zoh_first_order:
  assumes "0 < tau" and "0 < T"
  shows "discretize K tau T =
           Inr \<lparr>numerator = [K * (1 - exp (- (T / tau)))],
                denominator = [1, - exp (- (T / tau))], sample_period = T\<rparr>
       \<and> polyval [1, - exp (- (T / tau))] (exp (- (T / tau))) = 0
       \<and> dc_gain \<lparr>numerator = [K * (1 - exp (- (T / tau)))],
                   denominator = [1, - exp (- (T / tau))], sample_period = T\<rparr> = K
       \<and> polyval [K] 0 / polyval [tau, 1] 0 = K"
proof -
  have a: "- (1 / tau) \<noteq> 0" using assms(1) by simp
  have "K / tau * ((exp (- (1 / tau) * T) - 1) / (- (1 / tau)) * 1) = K * (1 - exp (- (T / tau)))"
    using assms(1) by (simp add: field_simps)
  then have d: "discretize K tau T =
           Inr \<lparr>numerator = [K * (1 - exp (- (T / tau)))],
                denominator = [1, - exp (- (T / tau))], sample_period = T\<rparr>"
    using assms a by (simp add: discretize_def ss2tf_def zoh_def tf2ss_def)
  have "0 < T / tau" using assms by simp
  then have "- (T / tau) < 0" by linarith
  then have "exp (- (T / tau)) < 1" by (simp only: exp_less_one_iff)
  then have ne: "1 - exp (- (T / tau)) \<noteq> 0" by linarith
  have g: "dc_gain \<lparr>numerator = [K * (1 - exp (- (T / tau)))],
                   denominator = [1, - exp (- (T / tau))], sample_period = T\<rparr> = K"
  proof -
    have "K * (1 - exp (- (T / tau))) / (1 - exp (- (T / tau))) = K"
      using ne by (rule nonzero_mult_div_cancel_right)
    then show ?thesis by (simp add: dc_gain_def)
  qed
  have p: "polyval [1, - exp (- (T / tau))] (exp (- (T / tau))) = 0"
    by (simp add: polyval_def)
  have c: "polyval [K] 0 / polyval [tau, 1] 0 = K"
    by (simp add: polyval_def)
  from d p g c show ?thesis by simp
qed

theorem zoh_first_order_witness:
  "(0::real) < 3787 \<and> (0::real) < 126
   \<and> discretize 1855 3787 126 =
        Inr \<lparr>numerator = [1855 * (1 - exp (- (126 / 3787)))],
             denominator = [1, - exp (- (126 / 3787))], sample_period = 126\<rparr>
   \<and> dc_gain \<lparr>numerator = [1855 * (1 - exp (- (126 / 3787)))],
               denominator = [1, - exp (- (126 / 3787))], sample_period = 126\<rparr> = 1855"
  using zoh_first_order [of 3787 126 1855] by simp

subsection \<open>Closed-loop composition\<close>

text \<open>
  Claim C3. For a controller and a plant with the same sample period the closed loop
  exists, its numerator is the product \<open>num(C) * num(G)\<close> and its denominator is
  \<open>den(C) * den(G) + num(C) * num(G)\<close>: as coefficient sequences, as polynomial values
  at every point, and coefficient by coefficient after alignment of the degrees.
\<close>

theorem closed_loop_polynomials:
  assumes "sample_period c = sample_period g"
  shows "\<exists>cl. close_loop c g = Inr cl
       \<and> numerator cl = polymul (numerator c) (numerator g)
       \<and> denominator cl = polyadd (polymul (denominator c) (denominator g))
                                   (polymul (numerator c) (numerator g))
       \<and> (\<forall>z. polyval (numerator cl) z = polyval (numerator c) z * polyval (numerator g) z)
       \<and> (\<forall>z. polyval (denominator cl) z =
                polyval (denominator c) z * polyval (denominator g) z
                + polyval (numerator c) z * polyval (numerator g) z)
       \<and> (\<forall>i. coeff (denominator cl) i =
                coeff (polymul (denominator c) (denominator g)) i
                + coeff (polymul (numerator c) (numerator g)) i)"
  using assms
  by (simp add: close_loop_def series_def Let_def polyval_polymul polyval_polyadd coeff_polyadd)

theorem closed_loop_polynomials_witness:
  "sample_period \<lparr>numerator = [1, 2], denominator = [1, - 1], sample_period = 1\<rparr>
     = sample_period \<lparr>numerator = [3], denominator = [1, - (1/2)], sample_period = 1\<rparr>
   \<and> close_loop \<lparr>numerator = [1, 2], denominator = [1, - 1], sample_period = 1\<rparr>
                 \<lparr>numerator = [3], denominator = [1, - (1/2)], sample_period = 1\<rparr>
       = Inr \<lparr>numerator = [3, 6], denominator = [1, 3/2, 13/2], sample_period = 1\<rparr>"
proof -
  let ?c = "\<lparr>numerator = [1, 2], denominator = [1, - 1], sample_period = 1\<rparr>"
  let ?g = "\<lparr>numerator = [3], denominator = [1, - (1/2)], sample_period = 1\<rparr>"
  have h: "sample_period ?c = sample_period ?g" by simp
  from closed_loop_polynomials [OF h] obtain cl where
    cl: "close_loop ?c ?g = Inr cl"
    and n: "numerator cl = polymul (numerator ?c) (numerator ?g)"
    and d: "denominator cl = polyadd (polymul (denominator ?c) (denominator ?g))
                                   (polymul (numerator ?c) (numerator ?g))"
    by blast
  have sp: "sample_period cl = 1" "lti.more cl = ()"
    using cl by (auto simp: close_loop_def series_def Let_def)
  have "numerator cl = [3, 6]" using n by (simp add: polyadd_def)
  moreover have "denominator cl = [1, 3/2, 13/2]" using d by (simp add: polyadd_def)
  ultimately have "cl = \<lparr>numerator = [3, 6], denominator = [1, 3/2, 13/2], sample_period = 1\<rparr>"
    using sp by (cases cl) simp
  with cl h show ?thesis by simp
qed

subsection \<open>Time-domain simulation\<close>

lemma dot_Nil [simp]: "dot [] hs = 0" "dot cs [] = 0"
  by (simp_all add: dot_def)

lemma dot_Cons [simp]: "dot (c # cs) (h # hs) = c * h + dot cs hs"
  by (simp add: dot_def)

lemma dot_sum: "dot cs hs = (\<Sum>k<length cs. cs ! k * (if k < length hs then hs ! k else 0))"
proof (induction cs arbitrary: hs)
  case Nil
  then show ?case by simp
next
  case (Cons c cs)
  show ?case
  proof (cases hs)
    case Nil
    then show ?thesis by simp
  next
    case hs: (Cons h hs')
    let ?g = "\<lambda>k. (c # cs) ! k * (if k < length (h # hs') then (h # hs') ! k else 0)"
    have "(\<Sum>k<Suc (length cs). ?g k) = ?g 0 + (\<Sum>k<length cs. ?g (Suc k))"
      by (rule sum.lessThan_Suc_shift)
    also have "\<dots> = c * h + (\<Sum>k<length cs. cs ! k * (if k < length hs' then hs' ! k else 0))"
      by (simp cong: if_cong)
    also have "\<dots> = c * h + dot cs hs'"
      by (simp only: Cons.IH [of hs'])
    finally have "(\<Sum>k<Suc (length cs). ?g k) = c * h + dot cs hs'" .
    then show ?thesis unfolding hs by (simp only: dot_Cons length_Cons)
  qed
qed

lemma length_sim_loop [simp]: "length (sim_loop b a0 as uh yh xs) = length xs"
  by (induction xs arbitrary: uh yh) (simp_all add: Let_def)

lemma sim_loop_append:
  "sim_loop b a0 as uh yh (xs @ zs) =
     sim_loop b a0 as uh yh xs @
     sim_loop b a0 as (rev xs @ uh) (rev (sim_loop b a0 as uh yh xs) @ yh) zs"
  by (induction xs arbitrary: uh yh) (simp_all add: Let_def)

lemma sim_loop_take:
  "take n (sim_loop b a0 as uh yh xs) = sim_loop b a0 as uh yh (take n xs)"
proof (induction xs arbitrary: n uh yh)
  case Nil
  then show ?case by simp
next
  case (Cons x xs)
  then show ?case by (cases n) (simp_all add: Let_def)
qed

lemma sim_loop_nth:
  assumes "n < length u"
  shows "sim_loop b a0 as [] [] u ! n =
           (1 / a0) * (dot b (rev (take (Suc n) u))
                       - dot as (rev (take n (sim_loop b a0 as [] [] u))))"
proof -
  let ?pre = "take n u"
  let ?ypre = "sim_loop b a0 as [] [] ?pre"
  have u: "u = ?pre @ (u ! n # drop (Suc n) u)"
    using assms by (simp add: Cons_nth_drop_Suc)
  have len: "length ?ypre = n" using assms by simp
  have "sim_loop b a0 as [] [] u =
          ?ypre @ sim_loop b a0 as (rev ?pre) (rev ?ypre) (u ! n # drop (Suc n) u)"
    using sim_loop_append [of b a0 as "[]" "[]" ?pre "u ! n # drop (Suc n) u"] u by simp
  then have "sim_loop b a0 as [] [] u ! n =
          sim_loop b a0 as (rev ?pre) (rev ?ypre) (u ! n # drop (Suc n) u) ! 0"
    using len by (simp add: nth_append)
  also have "\<dots> = (1 / a0) * (dot b (u ! n # rev ?pre) - dot as (rev ?ypre))"
    by (simp add: Let_def)
  also have "u ! n # rev ?pre = rev (take (Suc n) u)"
    using assms by (simp add: take_Suc_conv_app_nth)
  also have "?ypre = take n (sim_loop b a0 as [] [] u)"
    by (simp add: sim_loop_take)
  finally show ?thesis .
qed

lemma dot_input_history:
  assumes "n < length u"
  shows "dot b (rev (take (Suc n) u)) = (\<Sum>k<length b. b ! k * past u n k)"
proof -
  let ?h = "rev (take (Suc n) u)"
  have len: "length ?h = Suc n" using assms by simp
  have "(if k < length ?h then ?h ! k else 0) = past u n k" for k
  proof (cases "k \<le> n")
    case True
    then have "?h ! k = take (Suc n) u ! (n - k)"
      using assms by (simp add: rev_nth)
    also have "\<dots> = u ! (n - k)" by simp
    finally show ?thesis using True len by (simp add: past_def)
  next
    case False
    then show ?thesis using len by (simp add: past_def)
  qed
  then show ?thesis by (simp only: dot_sum)
qed

lemma dot_output_history:
  assumes "n \<le> length y"
  shows "dot as (rev (take n y)) = (\<Sum>k = 1..<Suc (length as). (a0 # as) ! k * past y n k)"
proof -
  let ?h = "rev (take n y)"
  have len: "length ?h = n" using assms by simp
  have "(if k < length ?h then ?h ! k else 0) = past y n (Suc k)" for k
  proof (cases "k < n")
    case True
    then have "?h ! k = take n y ! (n - Suc k)"
      using assms by (simp add: rev_nth)
    also have "\<dots> = y ! (n - Suc k)" using True by simp
    finally show ?thesis using True len by (simp add: past_def Suc_le_eq)
  next
    case False
    then show ?thesis using len by (simp add: past_def Suc_le_eq)
  qed
  then have "dot as ?h = (\<Sum>k<length as. (a0 # as) ! Suc k * past y n (Suc k))"
    by (simp only: dot_sum nth_Cons_Suc)
  also have "\<dots> = (\<Sum>k = 0..<length as. (a0 # as) ! Suc k * past y n (Suc k))"
    by (simp only: lessThan_atLeast0)
  also have "\<dots> = (\<Sum>k = Suc 0..<Suc (length as). (a0 # as) ! k * past y n k)"
    by (rule sum.shift_bounds_Suc_ivl [symmetric])
  finally show ?thesis by simp
qed

lemma sim_identity: "sim_loop [1] 1 [] uh yh u = u"
  by (induction u arbitrary: uh yh) (simp_all add: Let_def)

text \<open>
  Claim C4. On a matching time grid the simulator returns an output of the length of
  the input that satisfies, at every sample \<open>n\<close>,
  \<open>y[n] = (1/a0) * (sum_k b_k * u[n-k] - sum_{k>=1} a_k * y[n-k])\<close> with the terms at
  negative indices zero; and the identity system (numerator \<open>[1]\<close>, denominator \<open>[1]\<close>)
  returns its input.
\<close>

theorem simulate_difference_equation:
  assumes "uniform_grid (sample_period m) time" and "length time = length u"
    and "denominator m = a0 # as" and "a0 \<noteq> 0"
  shows "(\<exists>y. simulate m time u = Inr y \<and> length y = length u
            \<and> (\<forall>n<length u. y ! n =
                  (1 / a0) * ((\<Sum>k<length (numerator m). numerator m ! k * past u n k)
                             - (\<Sum>k = 1..<length (denominator m).
                                   denominator m ! k * past y n k))))
       \<and> simulate \<lparr>numerator = [1], denominator = [1],
                    sample_period = sample_period m\<rparr> time u = Inr u"
proof -
  let ?y = "sim_loop (numerator m) a0 as [] [] u"
  have run: "simulate m time u = Inr ?y"
    using assms by (simp add: simulate_def)
  have eq: "?y ! n =
        (1 / a0) * ((\<Sum>k<length (numerator m). numerator m ! k * past u n k)
                   - (\<Sum>k = 1..<length (denominator m). denominator m ! k * past ?y n k))"
    if "n < length u" for n
  proof -
    have "n \<le> length ?y" using that by simp
    then have "dot as (rev (take n ?y))
             = (\<Sum>k = 1..<Suc (length as). (a0 # as) ! k * past ?y n k)"
      by (rule dot_output_history)
    then show ?thesis
      using sim_loop_nth [OF that, of "numerator m" a0 as] dot_input_history [OF that]
      by (simp add: assms(3))
  qed
  have ident: "simulate \<lparr>numerator = [1], denominator = [1],
                    sample_period = sample_period m\<rparr> time u = Inr u"
    using assms(1,2) by (simp add: simulate_def sim_identity)
  from run eq ident show ?thesis by simp
qed

theorem simulate_difference_equation_witness:
  "uniform_grid (sample_period \<lparr>numerator = [1, 1], denominator = [2, 1], sample_period = 1\<rparr>)
     [0, 1, 2]
   \<and> length [0, 1, 2 :: real] = length [2, 4, 6 :: real]
   \<and> denominator \<lparr>numerator = [1, 1], denominator = [2, 1], sample_period = 1\<rparr> = [2, 1]
   \<and> (2::real) \<noteq> 0
   \<and> simulate \<lparr>numerator = [1, 1], denominator = [2, 1], sample_period = 1\<rparr> [0, 1, 2] [2, 4, 6]
       = Inr [1, 5/2, 15/4]
   \<and> simulate \<lparr>numerator = [1], denominator = [1], sample_period = 1\<rparr> [0, 1, 2] [2, 4, 6]
       = Inr [2, 4, 6]"
proof -
  let ?m = "\<lparr>numerator = [1, 1], denominator = [2, 1], sample_period = 1\<rparr>"
  have a: "uniform_grid (sample_period ?m) [0, 1, 2]" by simp
  have b: "length [0, 1, 2 :: real] = length [2, 4, 6 :: real]" by simp
  have c: "denominator ?m = [2, 1]" by simp
  have d: "(2::real) \<noteq> 0" by simp
  have e: "simulate ?m [0, 1, 2] [2, 4, 6] = Inr [1, 5/2, 15/4]"
    by (simp add: simulate_def Let_def)
  from simulate_difference_equation [OF a b c d]
  have "simulate \<lparr>numerator = [1], denominator = [1], sample_period = sample_period ?m\<rparr>
          [0, 1, 2] [2, 4, 6] = Inr [2, 4, 6]"
    by blast
  with a b c d e show ?thesis by simp
qed

end
